theory Spec2Isabelle
  imports Main "HOL-Library.Word" "HOL-Library.Sublist"
begin

unbundle bit_operations_syntax

section \<open>The linux_gpiod bit-bang SPI programmer (linux_gpiod.c)\<close>

text \<open>
  The driver is a sequence of calls into collaborators: the GPIO library
  (\<^verbatim>\<open>gpiod_*\<close>), the C allocator, the programmer configuration, the shutdown registry
  and the bit-bang SPI engine. The embedding keeps the driver's control flow as it is
  written and makes its effects explicit:
  \<^item> every call the driver makes to a collaborator is appended to a call trace;
  \<^item> every \<^verbatim>\<open>msg_perr\<close> diagnostic is appended to a message log;
  \<^item> the backend state \<^verbatim>\<open>struct gpiod_spi_data\<close> lives in a heap, a partial map from
    addresses to records, so that \<^verbatim>\<open>free\<close> removes it and a later access through the
    stale pointer is a fault of the model;
  \<^item> what a collaborator answers is not decided by this file: the answers received
    during one run of initialization are collected in a record of outcomes, and the
    theorems hold for every such record.
\<close>

subsection \<open>C types\<close>

text \<open>\<^verbatim>\<open>int\<close> and \<^verbatim>\<open>unsigned int\<close> are 32 bits wide; \<^verbatim>\<open>int\<close> is compared as two's
  complement (\<open><s\<close>).\<close>

type_synonym cint = "32 word"
type_synonym cuint = "32 word"

text \<open>Handles of the GPIO library and addresses of allocated backend states. A pointer
  that may be \<^verbatim>\<open>NULL\<close> is an \<open>option\<close>.\<close>

type_synonym chip_handle = nat
type_synonym line_handle = nat
type_synonym addr = nat

text \<open>\<^verbatim>\<open>struct gpiod_line_bulk\<close>: the lines it holds, in order;
  \<^verbatim>\<open>gpiod_line_bulk_num_lines\<close> is their number, and \<^verbatim>\<open>gpiod_line_bulk_get_line\<close> reads
  one slot (a slot that was never filled is still zero from \<^verbatim>\<open>calloc\<close>, that is
  \<^verbatim>\<open>NULL\<close>).\<close>

type_synonym gpiod_line_bulk = "line_handle list"

definition gpiod_line_bulk_num_lines :: "gpiod_line_bulk \<Rightarrow> nat" where
  "gpiod_line_bulk_num_lines b = length b"

definition gpiod_line_bulk_get_line :: "gpiod_line_bulk \<Rightarrow> nat \<Rightarrow> line_handle option" where
  "gpiod_line_bulk_get_line b i = (if i < length b then Some (b ! i) else None)"

record gpiod_spi_data =
  chip :: "chip_handle option"
  bulk :: gpiod_line_bulk
  cs_line :: "line_handle option"
  sck_line :: "line_handle option"
  mosi_line :: "line_handle option"
  miso_line :: "line_handle option"

text \<open>What \<^verbatim>\<open>calloc(1, sizeof(*data))\<close> hands out: every field zero.\<close>

definition zeroed_data :: gpiod_spi_data where
  "zeroed_data = \<lparr>chip = None, bulk = [], cs_line = None, sck_line = None,
                   mosi_line = None, miso_line = None\<rparr>"

subsection \<open>Calls, diagnostics and the program state\<close>

datatype call =
    Chip_open_by_number cuint
  | Chip_get_lines chip_handle "cuint list"
  | Line_request_output "line_handle option" string cint
  | Line_request_input "line_handle option" string
  | Line_set_value "line_handle option" cint
  | Line_get_value "line_handle option"
  | Line_release_bulk gpiod_line_bulk
  | Chip_close chip_handle
  | Free addr
  | Register_shutdown addr
  | Register_spi_bitbang_master addr

record state =
  heap :: "addr \<rightharpoonup> gpiod_spi_data"
  calls :: "call list"
  msgs :: "string list"

datatype fault = Invalid_pointer

type_synonym 'a result = "fault + ('a \<times> state)"

definition do_call :: "call \<Rightarrow> state \<Rightarrow> state" where
  "do_call c st = st\<lparr>calls := calls st @ [c]\<rparr>"

definition msg_perr :: "string \<Rightarrow> state \<Rightarrow> state" where
  "msg_perr m st = st\<lparr>msgs := msgs st @ [m]\<rparr>"

definition write_data :: "addr \<Rightarrow> gpiod_spi_data \<Rightarrow> state \<Rightarrow> state" where
  "write_data a d st = st\<lparr>heap := (heap st)(a \<mapsto> d)\<rparr>"

definition free :: "addr \<Rightarrow> state \<Rightarrow> state" where
  "free a st = do_call (Free a) (st\<lparr>heap := (heap st)(a := None)\<rparr>)"

definition CONSUMER :: string where
  "CONSUMER = ''flashrom''"

subsection \<open>The four bit-bang operations (lines 33 to 61)\<close>

text \<open>Each operation makes one library call; the first argument is what that call
  returns. The operations read the line out of the backend state behind \<open>spi_data\<close>.\<close>

definition linux_gpiod_bitbang_set_cs :: "cint \<Rightarrow> cint \<Rightarrow> addr \<Rightarrow> state \<Rightarrow> unit result" where
  "linux_gpiod_bitbang_set_cs set_value_ret val spi_data st =
     (case heap st spi_data of
        None \<Rightarrow> Inl Invalid_pointer
      | Some data \<Rightarrow>
          let st1 = do_call (Line_set_value (cs_line data) val) st
          in Inr ((), if set_value_ret <s 0
                      then msg_perr ''Setting cs line failed\<newline>'' st1 else st1))"

definition linux_gpiod_bitbang_set_sck :: "cint \<Rightarrow> cint \<Rightarrow> addr \<Rightarrow> state \<Rightarrow> unit result" where
  "linux_gpiod_bitbang_set_sck set_value_ret val spi_data st =
     (case heap st spi_data of
        None \<Rightarrow> Inl Invalid_pointer
      | Some data \<Rightarrow>
          let st1 = do_call (Line_set_value (sck_line data) val) st
          in Inr ((), if set_value_ret <s 0
                      then msg_perr ''Setting sck line failed\<newline>'' st1 else st1))"

definition linux_gpiod_bitbang_set_mosi :: "cint \<Rightarrow> cint \<Rightarrow> addr \<Rightarrow> state \<Rightarrow> unit result" where
  "linux_gpiod_bitbang_set_mosi set_value_ret val spi_data st =
     (case heap st spi_data of
        None \<Rightarrow> Inl Invalid_pointer
      | Some data \<Rightarrow>
          let st1 = do_call (Line_set_value (mosi_line data) val) st
          in Inr ((), if set_value_ret <s 0
                      then msg_perr ''Setting sck line failed\<newline>'' st1 else st1))"

definition linux_gpiod_bitbang_get_miso :: "cint \<Rightarrow> addr \<Rightarrow> state \<Rightarrow> cint result" where
  "linux_gpiod_bitbang_get_miso get_value_ret spi_data st =
     (case heap st spi_data of
        None \<Rightarrow> Inl Invalid_pointer
      | Some data \<Rightarrow>
          let st1 = do_call (Line_get_value (miso_line data)) st;
              r = get_value_ret
          in Inr (r, if r <s 0
                     then msg_perr ''Getting miso line failed\<newline>'' st1 else st1))"

subsection \<open>Shutdown (lines 70 to 83)\<close>

definition linux_gpiod_spi_shutdown :: "addr \<Rightarrow> state \<Rightarrow> cint result" where
  "linux_gpiod_spi_shutdown spi_data st =
     (case heap st spi_data of
        None \<Rightarrow> Inl Invalid_pointer
      | Some data \<Rightarrow>
          let st1 = (if 0 < gpiod_line_bulk_num_lines (bulk data)
                     then do_call (Line_release_bulk (bulk data)) st else st);
              st2 = (case chip data of
                       Some ch \<Rightarrow> do_call (Chip_close ch) st1
                     | None \<Rightarrow> st1);
              st3 = free spi_data st2
          in Inr (0, st3))"

subsection \<open>Initialization (lines 85 to 158)\<close>

text \<open>The answers of the collaborators during one run of
  \<^verbatim>\<open>linux_gpiod_spi_init\<close>. Initialization calls each of them at most once (the
  parameter lookup once per name), so one field per call site describes every
  possible behaviour of the collaborators.
  \<^item> \<open>param\<close>: \<^verbatim>\<open>extract_programmer_param_str(cfg, name)\<close>, \<open>None\<close> for \<^verbatim>\<open>NULL\<close>;
  \<^item> \<open>calloc_ret\<close>: the address \<^verbatim>\<open>calloc\<close> returns, \<open>None\<close> for \<^verbatim>\<open>NULL\<close>;
  \<^item> \<open>chip_open_ret\<close>: \<^verbatim>\<open>gpiod_chip_open_by_number\<close>, \<open>None\<close> for \<^verbatim>\<open>NULL\<close>;
  \<^item> \<open>strerror_errno\<close>: the text of \<^verbatim>\<open>strerror(errno)\<close> after a failed open;
  \<^item> \<open>get_lines_ret\<close>: the return value of \<^verbatim>\<open>gpiod_chip_get_lines\<close> and the lines
    it left in the bulk it was given. The library owns the bulk's contents: the driver
    reads them back only through \<^verbatim>\<open>gpiod_line_bulk_num_lines\<close> and
    \<^verbatim>\<open>gpiod_line_bulk_get_line\<close>;
  \<^item> \<open>request_cs_ret\<close> to \<open>request_miso_ret\<close>: the return values of the four
    \<^verbatim>\<open>gpiod_line_request_output\<close>/\<^verbatim>\<open>gpiod_line_request_input\<close> calls;
  \<^item> \<open>register_shutdown_ret\<close>, \<open>register_master_ret\<close>: the return values of
    \<^verbatim>\<open>register_shutdown\<close> and \<^verbatim>\<open>register_spi_bitbang_master\<close>.\<close>

record outcomes =
  param :: "string \<Rightarrow> string option"
  calloc_ret :: "addr option"
  chip_open_ret :: "chip_handle option"
  strerror_errno :: string
  get_lines_ret :: "cint \<times> gpiod_line_bulk"
  request_cs_ret :: cint
  request_sck_ret :: cint
  request_mosi_ret :: cint
  request_miso_ret :: cint
  register_shutdown_ret :: cint
  register_master_ret :: cint

text \<open>\<^verbatim>\<open>atoi\<close> of the C library: leading white space, an optional sign, then decimal
  digits up to the first other character. The value is stored into an
  \<^verbatim>\<open>unsigned int\<close>, which keeps it modulo \<open>2 ^ 32\<close>. (For digits beyond the range of
  \<^verbatim>\<open>int\<close> the C library leaves the result undefined; the model keeps the decimal value
  modulo \<open>2 ^ 32\<close> there as well.)\<close>

definition isspace :: "char \<Rightarrow> bool" where
  "isspace c = (c = CHR '' '' \<or> (9::nat) \<le> of_char c \<and> of_char c \<le> (13::nat))"

definition isdigit :: "char \<Rightarrow> bool" where
  "isdigit c = ((48::nat) \<le> of_char c \<and> of_char c \<le> (57::nat))"

definition digits_value :: "string \<Rightarrow> int" where
  "digits_value ds = foldl (\<lambda>a c. 10 * a + (int (of_char c) - 48)) 0 ds"

definition atoi :: "string \<Rightarrow> int" where
  "atoi s =
     (case dropWhile isspace s of
        [] \<Rightarrow> 0
      | c # r \<Rightarrow>
          if c = CHR ''-'' then - digits_value (takeWhile isdigit r)
          else if c = CHR ''+'' then digits_value (takeWhile isdigit r)
          else digits_value (takeWhile isdigit (c # r)))"

definition param_str :: "string list" where
  "param_str = [''cs'', ''sck'', ''mosi'', ''miso'', ''gpiochip'']"

definition missing_param_msg :: "string \<Rightarrow> string" where
  "missing_param_msg name = ''Missing required programmer parameter '' @ name @ ''=<n>\<newline>''"

text \<open>The loop of lines 94 to 103 over the remaining names; \<open>param_int\<close> holds the
  values converted so far. \<open>None\<close> is the jump to \<^verbatim>\<open>err_exit\<close>. (The loop also frees
  the string the configuration returned; that memory is not part of the model.)\<close>

fun param_loop :: "outcomes \<Rightarrow> string list \<Rightarrow> cuint list \<Rightarrow> state \<Rightarrow> cuint list option \<times> state" where
  "param_loop w [] param_int st = (Some param_int, st)"
| "param_loop w (name # names) param_int st =
     (case param w name of
        Some p \<Rightarrow> param_loop w names (param_int @ [word_of_int (atoi p)]) st
      | None \<Rightarrow> (None, msg_perr (missing_param_msg name) st))"

text \<open>The label \<^verbatim>\<open>err_exit\<close> (lines 147 to 157), with the values of the locals
  \<^verbatim>\<open>data\<close> and \<^verbatim>\<open>chip\<close> at the jump.\<close>

definition err_exit :: "addr option \<Rightarrow> chip_handle option \<Rightarrow> state \<Rightarrow> cint result" where
  "err_exit data ch st =
     (case data of
        None \<Rightarrow>
          Inr (1, case ch of Some c \<Rightarrow> do_call (Chip_close c) st | None \<Rightarrow> st)
      | Some a \<Rightarrow>
          (case heap st a of
             None \<Rightarrow> Inl Invalid_pointer
           | Some d \<Rightarrow>
               let st1 = (if 0 < gpiod_line_bulk_num_lines (bulk d)
                          then do_call (Line_release_bulk (bulk d)) st else st);
                   st2 = free a st1;
                   st3 = (case ch of Some c \<Rightarrow> do_call (Chip_close c) st2 | None \<Rightarrow> st2)
               in Inr (1, st3)))"

text \<open>Lines 124 to 145: role assignment, the four direction requests, the two
  registrations. \<open>d\<close> is the content of \<^verbatim>\<open>*data\<close> on entry.\<close>

definition request_and_register ::
  "outcomes \<Rightarrow> addr \<Rightarrow> gpiod_spi_data \<Rightarrow> chip_handle \<Rightarrow> state \<Rightarrow> cint result" where
  "request_and_register w data d ch st =
     (let d1 = d\<lparr>cs_line := gpiod_line_bulk_get_line (bulk d) 0,
                 sck_line := gpiod_line_bulk_get_line (bulk d) 1,
                 mosi_line := gpiod_line_bulk_get_line (bulk d) 2,
                 miso_line := gpiod_line_bulk_get_line (bulk d) 3\<rparr>;
          st1 = write_data data d1 st;
          st2 = do_call (Line_request_output (cs_line d1) CONSUMER 1) st1;
          r = request_cs_ret w;
          st3 = do_call (Line_request_output (sck_line d1) CONSUMER 1) st2;
          r = r OR request_sck_ret w;
          st4 = do_call (Line_request_output (mosi_line d1) CONSUMER 1) st3;
          r = r OR request_mosi_ret w;
          st5 = do_call (Line_request_input (miso_line d1) CONSUMER) st4;
          r = r OR request_miso_ret w
      in if r <s 0
         then err_exit (Some data) (Some ch) (msg_perr ''Requesting GPIO lines failed\<newline>'' st5)
         else
           let st6 = do_call (Register_shutdown data) st5
           in if register_shutdown_ret w \<noteq> 0
              then err_exit (Some data) (Some ch) st6
              else
                let st7 = do_call (Register_spi_bitbang_master data) st6
                in if register_master_ret w \<noteq> 0
                   then Inr (1, st7)
                   else Inr (0, st7))"

definition linux_gpiod_spi_init :: "outcomes \<Rightarrow> state \<Rightarrow> cint result" where
  "linux_gpiod_spi_init w st =
     (case param_loop w param_str [] st of
        (None, st1) \<Rightarrow> err_exit None None st1
      | (Some param_int, st1) \<Rightarrow>
          (case calloc_ret w of
             None \<Rightarrow>
               err_exit None None
                 (msg_perr ''Unable to allocate space for SPI master data\<newline>'' st1)
           | Some data \<Rightarrow>
               let d0 = zeroed_data;
                   st2 = write_data data d0 st1;
                   st3 = do_call (Chip_open_by_number (param_int ! 4)) st2
               in (case chip_open_ret w of
                     None \<Rightarrow>
                       err_exit (Some data) None
                         (msg_perr (''Failed to open gpiochip: '' @ strerror_errno w @ ''\<newline>'') st3)
                   | Some ch \<Rightarrow>
                       let d1 = d0\<lparr>chip := Some ch\<rparr>;
                           st4 = write_data data d1 st3;
                           st5 = do_call (Chip_get_lines ch (take 4 param_int)) st4;
                           d2 = d1\<lparr>bulk := snd (get_lines_ret w)\<rparr>;
                           st6 = write_data data d2 st5
                       in if fst (get_lines_ret w) \<noteq> 0
                          then err_exit (Some data) (Some ch)
                                 (msg_perr ''Error getting GPIO lines\<newline>'' st6)
                          else request_and_register w data d2 ch st6)))"

subsection \<open>Classifying calls\<close>

fun is_release :: "call \<Rightarrow> bool" where
  "is_release (Line_release_bulk b) = True"
| "is_release c = False"

fun is_close :: "call \<Rightarrow> bool" where
  "is_close (Chip_close ch) = True"
| "is_close c = False"

fun is_free :: "call \<Rightarrow> bool" where
  "is_free (Free a) = True"
| "is_free c = False"

subsection \<open>A concrete run\<close>

text \<open>The configuration \<^verbatim>\<open>cs=5,sck=6,mosi=7,miso=8,gpiochip=0\<close> on a machine where every
  collaborator succeeds: the allocator returns address 0, the library opens the chip as
  handle 0 and hands out the lines 5, 6, 7, 8 (the handle of a line is its offset here).
  The other runs used below change single answers of this one.\<close>

definition init_state :: state where
  "init_state = \<lparr>heap = Map.empty, calls = [], msgs = []\<rparr>"

definition all_succeed :: outcomes where
  "all_succeed =
     \<lparr>param = map_of [(''cs'', ''5''), (''sck'', ''6''), (''mosi'', ''7''), (''miso'', ''8''),
                       (''gpiochip'', ''0'')],
      calloc_ret = Some 0,
      chip_open_ret = Some 0,
      strerror_errno = [],
      get_lines_ret = (0, [5, 6, 7, 8]),
      request_cs_ret = 0,
      request_sck_ret = 0,
      request_mosi_ret = 0,
      request_miso_ret = 0,
      register_shutdown_ret = 0,
      register_master_ret = 0\<rparr>"

definition armed_backend :: gpiod_spi_data where
  "armed_backend =
     \<lparr>chip = Some 0, bulk = [5, 6, 7, 8], cs_line = Some 5, sck_line = Some 6,
      mosi_line = Some 7, miso_line = Some 8\<rparr>"

text \<open>The state in which \<open>linux_gpiod_spi_init all_succeed init_state\<close> returns 0.\<close>

definition armed_state :: state where
  "armed_state =
     \<lparr>heap = [0 \<mapsto> armed_backend],
      calls = [Chip_open_by_number 0, Chip_get_lines 0 [5, 6, 7, 8],
               Line_request_output (Some 5) ''flashrom'' 1,
               Line_request_output (Some 6) ''flashrom'' 1,
               Line_request_output (Some 7) ''flashrom'' 1,
               Line_request_input (Some 8) ''flashrom'',
               Register_shutdown 0, Register_spi_bitbang_master 0],
      msgs = []\<rparr>"

text \<open>The state after one \<open>linux_gpiod_spi_shutdown 0\<close> from \<open>armed_state\<close>.\<close>

definition released_state :: state where
  "released_state =
     \<lparr>heap = Map.empty,
      calls = calls armed_state @ [Line_release_bulk [5, 6, 7, 8], Chip_close 0, Free 0],
      msgs = []\<rparr>"

section \<open>Properties\<close>

subsection \<open>Auxiliary facts\<close>

lemmas init_defs = linux_gpiod_spi_init_def request_and_register_def err_exit_def Let_def
  write_data_def do_call_def msg_perr_def free_def zeroed_data_def
  gpiod_line_bulk_num_lines_def CONSUMER_def

lemmas atoi_defs = atoi_def isspace_def isdigit_def digits_value_def

text \<open>The sign bit of a bitwise OR is the OR of the sign bits.\<close>

lemma or_negative_iff: "(a OR b) <s 0 \<longleftrightarrow> a <s 0 \<or> b <s (0 :: cint)"
  by (simp add: word_sless_alt bit_last_iff [symmetric] bit_or_iff)

text \<open>The parameter loop when all five parameters are present.\<close>

lemma param_loop_present:
  assumes "param w ''cs'' = Some pcs" "param w ''sck'' = Some psck"
    "param w ''mosi'' = Some pmosi" "param w ''miso'' = Some pmiso"
    "param w ''gpiochip'' = Some pchip"
  shows "param_loop w param_str [] st =
     (Some [word_of_int (atoi pcs), word_of_int (atoi psck), word_of_int (atoi pmosi),
            word_of_int (atoi pmiso), word_of_int (atoi pchip)], st)"
  using assms by (simp add: param_str_def)

text \<open>The parameter loop in general: it stops at the first name the configuration
  does not have.\<close>

lemma param_loop_find:
  "param_loop w names acc st =
     (case find (\<lambda>n. param w n = None) names of
        Some q \<Rightarrow> (None, msg_perr (missing_param_msg q) st)
      | None \<Rightarrow> (Some (acc @ map (\<lambda>n. word_of_int (atoi (the (param w n)))) names), st))"
  by (induction names arbitrary: acc) (auto split: option.splits)

lemma find_first:
  "p \<in> set ns \<Longrightarrow> P p \<Longrightarrow> \<forall>n\<in>set (takeWhile (\<lambda>n. n \<noteq> p) ns). \<not> P n \<Longrightarrow> find P ns = Some p"
  by (induction ns) auto

subsection \<open>Line-request failure (C1)\<close>

text \<open>
  Claim C1. If any of the four line-direction requests (chip-select, clock and data-out
  as outputs, data-in as input) fails, that is returns a negative value, then
  initialization releases the four looked-up lines with exactly one bulk-release call,
  frees the backend state, closes the controller, and returns failure (1). The whole run
  is given: the calls made are the open, the lookup, the four requests, one
  \<open>Line_release_bulk\<close> of the four lines, the \<open>Free\<close> and one \<open>Chip_close\<close>, in this order.
\<close>

theorem init_request_failure_releases_and_closes:
  assumes "param w ''cs'' = Some pcs" "param w ''sck'' = Some psck"
    "param w ''mosi'' = Some pmosi" "param w ''miso'' = Some pmiso"
    "param w ''gpiochip'' = Some pchip"
    and "calloc_ret w = Some a" "chip_open_ret w = Some c"
    and "get_lines_ret w = (0, [l0, l1, l2, l3])"
    and "request_cs_ret w <s 0 \<or> request_sck_ret w <s 0 \<or>
         request_mosi_ret w <s 0 \<or> request_miso_ret w <s 0"
  shows "linux_gpiod_spi_init w st =
    Inr (1, st\<lparr>heap := (heap st)(a := None),
               calls := calls st @
                 [Chip_open_by_number (word_of_int (atoi pchip)),
                  Chip_get_lines c [word_of_int (atoi pcs), word_of_int (atoi psck),
                                    word_of_int (atoi pmosi), word_of_int (atoi pmiso)],
                  Line_request_output (Some l0) ''flashrom'' 1,
                  Line_request_output (Some l1) ''flashrom'' 1,
                  Line_request_output (Some l2) ''flashrom'' 1,
                  Line_request_input (Some l3) ''flashrom'',
                  Line_release_bulk [l0, l1, l2, l3],
                  Free a,
                  Chip_close c],
               msgs := msgs st @ [''Requesting GPIO lines failed\<newline>'']\<rparr>)"
  using assms(6-9)
  by (simp add: init_defs param_loop_present [OF assms(1-5)] or_negative_iff
      gpiod_line_bulk_get_line_def)

text \<open>The run in which only the request of the data-in line (miso, line 8) fails.\<close>

theorem init_request_failure_releases_and_closes_witness:
  "linux_gpiod_spi_init (all_succeed\<lparr>request_miso_ret := - 1\<rparr>) init_state =
    Inr (1, \<lparr>heap = Map.empty,
             calls = [Chip_open_by_number 0, Chip_get_lines 0 [5, 6, 7, 8],
                      Line_request_output (Some 5) ''flashrom'' 1,
                      Line_request_output (Some 6) ''flashrom'' 1,
                      Line_request_output (Some 7) ''flashrom'' 1,
                      Line_request_input (Some 8) ''flashrom'',
                      Line_release_bulk [5, 6, 7, 8], Free 0, Chip_close 0],
             msgs = [''Requesting GPIO lines failed\<newline>'']\<rparr>)"
  using init_request_failure_releases_and_closes
    [of "all_succeed\<lparr>request_miso_ret := - 1\<rparr>" "''5''" "''6''" "''7''" "''8''" "''0''"
        0 0 5 6 7 8 init_state]
  by (simp add: all_succeed_def init_state_def atoi_defs)

subsection \<open>Shutdown (C2)\<close>

lemma shutdown_armed:
  assumes "heap st p = Some d" "bulk d = [l0, l1, l2, l3]" "chip d = Some c"
  shows "linux_gpiod_spi_shutdown p st =
           Inr (0, st\<lparr>heap := (heap st)(p := None),
                      calls := calls st @
                        [Line_release_bulk [l0, l1, l2, l3], Chip_close c, Free p]\<rparr>)"
  using assms
  by (simp add: linux_gpiod_spi_shutdown_def Let_def gpiod_line_bulk_num_lines_def
      do_call_def free_def)

lemma shutdown_freed:
  "heap st p = None \<Longrightarrow> linux_gpiod_spi_shutdown p st = Inl Invalid_pointer"
  by (simp add: linux_gpiod_spi_shutdown_def)

text \<open>Every run of initialization returns, and on each of its paths the release, the
  close and the free happen at most once; once the shutdown hook is registered,
  initialization does none of them.\<close>

lemma init_cleanup_at_most_once:
  "\<exists>rc st' new. linux_gpiod_spi_init w s = Inr (rc, st') \<and> calls st' = calls s @ new \<and>
      length (filter is_release new) \<le> 1 \<and> length (filter is_close new) \<le> 1 \<and>
      length (filter is_free new) \<le> 1 \<and>
      ((\<exists>a. Register_shutdown a \<in> set new) \<and> register_shutdown_ret w = 0 \<longrightarrow>
         filter is_release new = [] \<and> filter is_close new = [] \<and> filter is_free new = [])"
  by (simp add: init_defs param_loop_find split: option.splits prod.splits)

text \<open>A run of initialization that arms the backend (parameters present, allocation,
  open and a four-line lookup succeed) ends in one of two ways. If a line request or the
  registration of the shutdown hook fails, the error path makes exactly one release, one
  close and one free, and the backend state is gone. Otherwise initialization makes none
  of the three, the hook is registered on the live, armed backend state, and one
  invocation of the hook makes exactly one release, one close and one free.\<close>

lemma init_cleanup_exactly_once:
  assumes "param w ''cs'' = Some pcs" "param w ''sck'' = Some psck"
    "param w ''mosi'' = Some pmosi" "param w ''miso'' = Some pmiso"
    "param w ''gpiochip'' = Some pchip"
    and "calloc_ret w = Some a" "chip_open_ret w = Some c'"
    and "get_lines_ret w = (0, [k0, k1, k2, k3])"
  shows "\<exists>rc st' new. linux_gpiod_spi_init w s = Inr (rc, st') \<and> calls st' = calls s @ new \<and>
     (if request_cs_ret w <s 0 \<or> request_sck_ret w <s 0 \<or> request_mosi_ret w <s 0 \<or>
         request_miso_ret w <s 0 \<or> register_shutdown_ret w \<noteq> 0
      then rc = 1 \<and> heap st' a = None \<and>
           filter is_release new = [Line_release_bulk [k0, k1, k2, k3]] \<and>
           filter is_close new = [Chip_close c'] \<and>
           filter is_free new = [Free a]
      else heap st' a = Some \<lparr>chip = Some c', bulk = [k0, k1, k2, k3], cs_line = Some k0,
                               sck_line = Some k1, mosi_line = Some k2,
                               miso_line = Some k3\<rparr> \<and>
           Register_shutdown a \<in> set new \<and>
           filter is_release new = [] \<and> filter is_close new = [] \<and> filter is_free new = [] \<and>
           linux_gpiod_spi_shutdown a st' =
             Inr (0, st'\<lparr>heap := (heap st')(a := None),
                         calls := calls s @ new @
                           [Line_release_bulk [k0, k1, k2, k3], Chip_close c', Free a]\<rparr>))"
  using assms(6-8)
  by (simp add: init_defs param_loop_present [OF assms(1-5)] or_negative_iff
      gpiod_line_bulk_get_line_def linux_gpiod_spi_shutdown_def)

text \<open>
  Claim C2, as the code has it. Shutdown of a fully armed backend (four lines in the
  bulk, controller open) makes exactly one bulk-release of the lines, one close of the
  controller and one free of the backend state, in this order, and returns 0. It is not
  idempotent: the first invocation frees the backend state, so a second invocation on the
  same instance reads through a dangling pointer (the fault \<open>Invalid_pointer\<close> here,
  undefined behaviour in C) instead of doing nothing. Apart from that, the release, the
  close and the free of an armed backend happen exactly once whichever path triggers
  them: when a line request or the registration of the shutdown hook fails,
  initialization's error path makes exactly one of each and the backend state is gone;
  otherwise initialization makes none of them, and the one invocation of the registered
  hook makes exactly one of each. In every run of initialization, armed or not, each of
  the three happens at most once.
\<close>

theorem shutdown_once_then_dangling:
  assumes "heap st p = Some d" "bulk d = [l0, l1, l2, l3]" "chip d = Some c"
    and "param w ''cs'' = Some pcs" "param w ''sck'' = Some psck"
    "param w ''mosi'' = Some pmosi" "param w ''miso'' = Some pmiso"
    "param w ''gpiochip'' = Some pchip"
    and "calloc_ret w = Some a" "chip_open_ret w = Some c'"
    and "get_lines_ret w = (0, [k0, k1, k2, k3])"
  shows "linux_gpiod_spi_shutdown p st =
           Inr (0, st\<lparr>heap := (heap st)(p := None),
                      calls := calls st @
                        [Line_release_bulk [l0, l1, l2, l3], Chip_close c, Free p]\<rparr>)
       \<and> linux_gpiod_spi_shutdown p
           (st\<lparr>heap := (heap st)(p := None),
               calls := calls st @
                 [Line_release_bulk [l0, l1, l2, l3], Chip_close c, Free p]\<rparr>)
         = Inl Invalid_pointer
       \<and> (\<exists>rc st' new. linux_gpiod_spi_init w s = Inr (rc, st') \<and> calls st' = calls s @ new \<and>
           (if request_cs_ret w <s 0 \<or> request_sck_ret w <s 0 \<or> request_mosi_ret w <s 0 \<or>
               request_miso_ret w <s 0 \<or> register_shutdown_ret w \<noteq> 0
            then rc = 1 \<and> heap st' a = None \<and>
                 filter is_release new = [Line_release_bulk [k0, k1, k2, k3]] \<and>
                 filter is_close new = [Chip_close c'] \<and>
                 filter is_free new = [Free a]
            else heap st' a = Some \<lparr>chip = Some c', bulk = [k0, k1, k2, k3],
                                     cs_line = Some k0, sck_line = Some k1,
                                     mosi_line = Some k2, miso_line = Some k3\<rparr> \<and>
                 Register_shutdown a \<in> set new \<and>
                 filter is_release new = [] \<and> filter is_close new = [] \<and>
                 filter is_free new = [] \<and>
                 linux_gpiod_spi_shutdown a st' =
                   Inr (0, st'\<lparr>heap := (heap st')(a := None),
                               calls := calls s @ new @
                                 [Line_release_bulk [k0, k1, k2, k3], Chip_close c',
                                  Free a]\<rparr>)))
       \<and> (\<exists>rc st' new. linux_gpiod_spi_init w0 s0 = Inr (rc, st') \<and>
            calls st' = calls s0 @ new \<and>
            length (filter is_release new) \<le> 1 \<and> length (filter is_close new) \<le> 1 \<and>
            length (filter is_free new) \<le> 1 \<and>
            ((\<exists>a. Register_shutdown a \<in> set new) \<and> register_shutdown_ret w0 = 0 \<longrightarrow>
               filter is_release new = [] \<and> filter is_close new = [] \<and>
               filter is_free new = []))"
proof -
  have once: "linux_gpiod_spi_shutdown p st =
           Inr (0, st\<lparr>heap := (heap st)(p := None),
                      calls := calls st @
                        [Line_release_bulk [l0, l1, l2, l3], Chip_close c, Free p]\<rparr>)"
    by (rule shutdown_armed [OF assms(1-3)])
  have twice: "linux_gpiod_spi_shutdown p
           (st\<lparr>heap := (heap st)(p := None),
               calls := calls st @
                 [Line_release_bulk [l0, l1, l2, l3], Chip_close c, Free p]\<rparr>)
         = Inl Invalid_pointer"
    by (simp add: shutdown_freed)
  show ?thesis
    using once twice init_cleanup_exactly_once [OF assms(4-11), of s]
      init_cleanup_at_most_once [of w0 s0]
    by blast
qed

text \<open>The armed state of the successful run, shut down once and then once more; the
  successful run itself, which leaves the cleanup to the hook; and the run in which the
  registration of the hook fails, where the error path cleans up.\<close>

theorem shutdown_once_then_dangling_witness:
  "linux_gpiod_spi_shutdown 0 armed_state = Inr (0, released_state)
   \<and> linux_gpiod_spi_shutdown 0 released_state = Inl Invalid_pointer
   \<and> linux_gpiod_spi_init all_succeed init_state = Inr (0, armed_state)
   \<and> Register_shutdown 0 \<in> set (calls armed_state)
   \<and> filter is_release (calls armed_state) = []
   \<and> filter is_close (calls armed_state) = []
   \<and> filter is_free (calls armed_state) = []
   \<and> (\<exists>st'. linux_gpiod_spi_init (all_succeed\<lparr>register_shutdown_ret := 1\<rparr>) init_state
               = Inr (1, st') \<and>
        heap st' 0 = None \<and>
        filter is_release (calls st') = [Line_release_bulk [5, 6, 7, 8]] \<and>
        filter is_close (calls st') = [Chip_close 0] \<and>
        filter is_free (calls st') = [Free 0])"
  using shutdown_once_then_dangling
    [of armed_state 0 armed_backend 5 6 7 8 0 all_succeed "''5''" "''6''" "''7''" "''8''"
        "''0''" 0 0 5 6 7 8 init_state "all_succeed\<lparr>register_shutdown_ret := 1\<rparr>" init_state]
    shutdown_once_then_dangling
    [of armed_state 0 armed_backend 5 6 7 8 0 "all_succeed\<lparr>register_shutdown_ret := 1\<rparr>"
        "''5''" "''6''" "''7''" "''8''" "''0''" 0 0 5 6 7 8 init_state all_succeed init_state]
  by (simp add: armed_state_def armed_backend_def released_state_def all_succeed_def
      init_state_def init_defs param_str_def atoi_defs gpiod_line_bulk_get_line_def)

text \<open>The claim as it was stated asks the second invocation to be a no-op. After the
  successful run \<open>all_succeed\<close> and one shutdown, the second shutdown on the same
  address does not return at all in the model.\<close>

theorem second_shutdown_not_noop:
  "linux_gpiod_spi_init all_succeed init_state = Inr (0, armed_state)
   \<and> linux_gpiod_spi_shutdown 0 armed_state = Inr (0, released_state)
   \<and> linux_gpiod_spi_shutdown 0 released_state = Inl Invalid_pointer
   \<and> linux_gpiod_spi_shutdown 0 released_state \<noteq> Inr (0, released_state)"
  by (simp add: armed_state_def armed_backend_def released_state_def all_succeed_def
      init_state_def init_defs param_str_def atoi_defs gpiod_line_bulk_get_line_def
      linux_gpiod_spi_shutdown_def)

subsection \<open>The four requests are all made and their results combined (C3)\<close>

text \<open>
  Claim C3. After a successful lookup all four line-direction requests are made, whatever
  the earlier ones return: the calls of every such run begin with the open, the lookup and
  the four requests. Their results are accumulated with bitwise OR, and the accumulated
  value is negative exactly when at least one of the four results is negative. On a
  negative accumulated value initialization takes the failure path (diagnostic
  \<^verbatim>\<open>Requesting GPIO lines failed\<close>, cleanup, return 1); otherwise it logs nothing and goes
  on to register the shutdown hook.
\<close>

theorem init_requests_no_short_circuit:
  assumes "param w ''cs'' = Some pcs" "param w ''sck'' = Some psck"
    "param w ''mosi'' = Some pmosi" "param w ''miso'' = Some pmiso"
    "param w ''gpiochip'' = Some pchip"
    and "calloc_ret w = Some a" "chip_open_ret w = Some c"
    and "get_lines_ret w = (0, b)"
  shows "((((request_cs_ret w OR request_sck_ret w) OR request_mosi_ret w)
             OR request_miso_ret w) <s 0
          \<longleftrightarrow> request_cs_ret w <s 0 \<or> request_sck_ret w <s 0 \<or>
              request_mosi_ret w <s 0 \<or> request_miso_ret w <s 0)
     \<and> (\<exists>rc st' rest. linux_gpiod_spi_init w st = Inr (rc, st') \<and>
           calls st' = calls st @
                 [Chip_open_by_number (word_of_int (atoi pchip)),
                  Chip_get_lines c [word_of_int (atoi pcs), word_of_int (atoi psck),
                                    word_of_int (atoi pmosi), word_of_int (atoi pmiso)],
                  Line_request_output (gpiod_line_bulk_get_line b 0) ''flashrom'' 1,
                  Line_request_output (gpiod_line_bulk_get_line b 1) ''flashrom'' 1,
                  Line_request_output (gpiod_line_bulk_get_line b 2) ''flashrom'' 1,
                  Line_request_input (gpiod_line_bulk_get_line b 3) ''flashrom''] @ rest \<and>
           (if (((request_cs_ret w OR request_sck_ret w) OR request_mosi_ret w)
                  OR request_miso_ret w) <s 0
            then rc = 1 \<and> msgs st' = msgs st @ [''Requesting GPIO lines failed\<newline>''] \<and>
                 rest = (if b = [] then [] else [Line_release_bulk b]) @ [Free a, Chip_close c]
            else msgs st' = msgs st \<and> (\<exists>rest'. rest = Register_shutdown a # rest')))"
  using assms(6-8)
  by (simp add: init_defs param_loop_present [OF assms(1-5)] or_negative_iff)

text \<open>Two runs: the first request (chip-select) fails and the other three are still
  made; no request fails and the shutdown hook is registered next.\<close>

theorem init_requests_no_short_circuit_witness:
  "(\<exists>rc st' rest.
      linux_gpiod_spi_init (all_succeed\<lparr>request_cs_ret := - 1\<rparr>) init_state = Inr (rc, st') \<and>
      calls st' = [Chip_open_by_number 0, Chip_get_lines 0 [5, 6, 7, 8],
                   Line_request_output (Some 5) ''flashrom'' 1,
                   Line_request_output (Some 6) ''flashrom'' 1,
                   Line_request_output (Some 7) ''flashrom'' 1,
                   Line_request_input (Some 8) ''flashrom''] @ rest \<and>
      rc = 1 \<and> msgs st' = [''Requesting GPIO lines failed\<newline>''] \<and>
      rest = [Line_release_bulk [5, 6, 7, 8], Free 0, Chip_close 0])
   \<and> (\<exists>rc st' rest.
      linux_gpiod_spi_init all_succeed init_state = Inr (rc, st') \<and>
      calls st' = [Chip_open_by_number 0, Chip_get_lines 0 [5, 6, 7, 8],
                   Line_request_output (Some 5) ''flashrom'' 1,
                   Line_request_output (Some 6) ''flashrom'' 1,
                   Line_request_output (Some 7) ''flashrom'' 1,
                   Line_request_input (Some 8) ''flashrom'', Register_shutdown 0] @ rest \<and>
      msgs st' = [])"
  using init_requests_no_short_circuit
    [of "all_succeed\<lparr>request_cs_ret := - 1\<rparr>" "''5''" "''6''" "''7''" "''8''" "''0''"
        0 0 "[5, 6, 7, 8]" init_state]
    init_requests_no_short_circuit
    [of all_succeed "''5''" "''6''" "''7''" "''8''" "''0''" 0 0 "[5, 6, 7, 8]" init_state]
  by (auto simp add: all_succeed_def init_state_def atoi_defs gpiod_line_bulk_get_line_def)

subsection \<open>Successful initialization (C4)\<close>

text \<open>
  Claim C4. When the controller opens, the lookup returns four lines, none of the four
  requests returns a negative value and both registrations return 0, initialization
  returns 0. The calls it made are exactly: the open, the lookup, the request of the
  chip-select, clock and data-out lines as outputs with initial value 1 (logic high), the
  request of the data-in line as input, and the two registrations. No release, close or
  free is among them, nothing is logged, and the backend state holds the controller and
  the four lines by role.
\<close>

theorem init_success_trace:
  assumes "param w ''cs'' = Some pcs" "param w ''sck'' = Some psck"
    "param w ''mosi'' = Some pmosi" "param w ''miso'' = Some pmiso"
    "param w ''gpiochip'' = Some pchip"
    and "calloc_ret w = Some a" "chip_open_ret w = Some c"
    and "get_lines_ret w = (0, [l0, l1, l2, l3])"
    and "\<not> request_cs_ret w <s 0" "\<not> request_sck_ret w <s 0"
        "\<not> request_mosi_ret w <s 0" "\<not> request_miso_ret w <s 0"
    and "register_shutdown_ret w = 0" "register_master_ret w = 0"
  shows "linux_gpiod_spi_init w st =
    Inr (0, st\<lparr>heap := (heap st)(a \<mapsto>
                 \<lparr>chip = Some c, bulk = [l0, l1, l2, l3], cs_line = Some l0,
                  sck_line = Some l1, mosi_line = Some l2, miso_line = Some l3\<rparr>),
               calls := calls st @
                 [Chip_open_by_number (word_of_int (atoi pchip)),
                  Chip_get_lines c [word_of_int (atoi pcs), word_of_int (atoi psck),
                                    word_of_int (atoi pmosi), word_of_int (atoi pmiso)],
                  Line_request_output (Some l0) ''flashrom'' 1,
                  Line_request_output (Some l1) ''flashrom'' 1,
                  Line_request_output (Some l2) ''flashrom'' 1,
                  Line_request_input (Some l3) ''flashrom'',
                  Register_shutdown a,
                  Register_spi_bitbang_master a]\<rparr>)"
  using assms(6-)
  by (simp add: init_defs param_loop_present [OF assms(1-5)] or_negative_iff
      gpiod_line_bulk_get_line_def)

theorem init_success_trace_witness:
  "linux_gpiod_spi_init all_succeed init_state = Inr (0, armed_state)"
  using init_success_trace
    [of all_succeed "''5''" "''6''" "''7''" "''8''" "''0''" 0 0 5 6 7 8 init_state]
  by (simp add: all_succeed_def init_state_def armed_state_def armed_backend_def atoi_defs)

subsection \<open>A missing parameter (C5)\<close>

text \<open>
  Claim C5. If one of the five parameters \<^verbatim>\<open>cs\<close>, \<^verbatim>\<open>sck\<close>, \<^verbatim>\<open>mosi\<close>, \<^verbatim>\<open>miso\<close>,
  \<^verbatim>\<open>gpiochip\<close> is absent, initialization returns 1 and changes nothing but the log: it
  makes no call at all (no open, lookup, request, release or close) and logs exactly one
  diagnostic, \<^verbatim>\<open>Missing required programmer parameter q=<n>\<close>, where \<open>q\<close> is a parameter
  that is absent. The loop reports the first absent name in the order of \<open>param_str\<close>, so
  \<open>q\<close> is the given parameter whenever every parameter before it is present, in
  particular when it is the only one absent.
\<close>

theorem init_missing_parameter:
  assumes "p \<in> set param_str" and "param w p = None"
  shows "\<exists>q\<in>set param_str. param w q = None \<and>
           linux_gpiod_spi_init w st =
             Inr (1, st\<lparr>msgs := msgs st @
                        [''Missing required programmer parameter '' @ q @ ''=<n>\<newline>'']\<rparr>) \<and>
           ((\<forall>n\<in>set (takeWhile (\<lambda>n. n \<noteq> p) param_str). param w n \<noteq> None) \<longrightarrow> q = p)"
proof -
  let ?absent = "\<lambda>n. param w n = None"
  from assms obtain q where q: "find ?absent param_str = Some q"
    by (cases "find ?absent param_str") (auto simp: find_None_iff)
  then have absent: "param w q = None" and mem: "q \<in> set param_str"
    by (auto simp: find_Some_iff)
  have first: "(\<forall>n\<in>set (takeWhile (\<lambda>n. n \<noteq> p) param_str). param w n \<noteq> None) \<longrightarrow> q = p"
    using find_first [of p param_str ?absent] assms q by auto
  have "linux_gpiod_spi_init w st = Inr (1, msg_perr (missing_param_msg q) st)"
    by (simp add: linux_gpiod_spi_init_def param_loop_find q err_exit_def)
  then have "linux_gpiod_spi_init w st =
      Inr (1, st\<lparr>msgs := msgs st @
                 [''Missing required programmer parameter '' @ q @ ''=<n>\<newline>'']\<rparr>)"
    by (simp add: msg_perr_def missing_param_msg_def)
  with absent mem first show ?thesis by blast
qed

text \<open>The configuration \<^verbatim>\<open>cs=5,sck=6,mosi=7,gpiochip=0\<close>, without \<^verbatim>\<open>miso\<close>.\<close>

theorem init_missing_parameter_witness:
  "linux_gpiod_spi_init (all_succeed\<lparr>param := (param all_succeed)(''miso'' := None)\<rparr>)
     init_state =
     Inr (1, \<lparr>heap = Map.empty, calls = [],
              msgs = [''Missing required programmer parameter miso=<n>\<newline>'']\<rparr>)"
  using init_missing_parameter
    [of "''miso''" "all_succeed\<lparr>param := (param all_succeed)(''miso'' := None)\<rparr>" init_state]
  by (auto simp add: all_succeed_def init_state_def param_str_def)

subsection \<open>Lookup failure (C6)\<close>

text \<open>
  Claim C6, as the code has it. If \<^verbatim>\<open>gpiod_chip_get_lines\<close> fails (returns non-zero)
  after the controller was opened, initialization makes no line request, frees the
  backend state, closes the controller once and returns 1. Whether it calls
  \<^verbatim>\<open>gpiod_line_release_bulk\<close> is decided at \<^verbatim>\<open>err_exit\<close> by the guard
  \<^verbatim>\<open>gpiod_line_bulk_num_lines(&data->bulk) > 0\<close>, that is by what the failed lookup left
  in the bulk: no release call when it left the bulk empty, one bulk-release of the lines
  it left there otherwise.
\<close>

theorem init_lookup_failure_cleanup:
  assumes "param w ''cs'' = Some pcs" "param w ''sck'' = Some psck"
    "param w ''mosi'' = Some pmosi" "param w ''miso'' = Some pmiso"
    "param w ''gpiochip'' = Some pchip"
    and "calloc_ret w = Some a" "chip_open_ret w = Some c"
    and "get_lines_ret w = (ret, b)" "ret \<noteq> 0"
  shows "linux_gpiod_spi_init w st =
    Inr (1, st\<lparr>heap := (heap st)(a := None),
               calls := calls st @
                 [Chip_open_by_number (word_of_int (atoi pchip)),
                  Chip_get_lines c [word_of_int (atoi pcs), word_of_int (atoi psck),
                                    word_of_int (atoi pmosi), word_of_int (atoi pmiso)]] @
                 (if b = [] then [] else [Line_release_bulk b]) @
                 [Free a, Chip_close c],
               msgs := msgs st @ [''Error getting GPIO lines\<newline>'']\<rparr>)"
  using assms(6-9)
  by (simp add: init_defs param_loop_present [OF assms(1-5)])

text \<open>A lookup that fails and leaves the bulk empty: no release call.\<close>

theorem init_lookup_failure_cleanup_witness:
  "linux_gpiod_spi_init (all_succeed\<lparr>get_lines_ret := (- 1, [])\<rparr>) init_state =
    Inr (1, \<lparr>heap = Map.empty,
             calls = [Chip_open_by_number 0, Chip_get_lines 0 [5, 6, 7, 8],
                      Free 0, Chip_close 0],
             msgs = [''Error getting GPIO lines\<newline>'']\<rparr>)"
  using init_lookup_failure_cleanup
    [of "all_succeed\<lparr>get_lines_ret := (- 1, [])\<rparr>" "''5''" "''6''" "''7''" "''8''" "''0''"
        0 0 "- 1" "[]" init_state]
  by (simp add: all_succeed_def init_state_def atoi_defs)

text \<open>The claim as it was stated promises no release call after any failed lookup. The
  library fills the bulk one offset at a time and stops at the first offset it cannot
  get, so a failed lookup can leave lines behind: here it got line 5 and failed on the
  second offset. The guard at \<^verbatim>\<open>err_exit\<close> then sees one line and releases the bulk.\<close>

theorem init_lookup_failure_may_release:
  "fst (get_lines_ret (all_succeed\<lparr>get_lines_ret := (- 1, [5])\<rparr>)) \<noteq> 0 \<and>
   linux_gpiod_spi_init (all_succeed\<lparr>get_lines_ret := (- 1, [5])\<rparr>) init_state =
    Inr (1, \<lparr>heap = Map.empty,
             calls = [Chip_open_by_number 0, Chip_get_lines 0 [5, 6, 7, 8],
                      Line_release_bulk [5], Free 0, Chip_close 0],
             msgs = [''Error getting GPIO lines\<newline>'']\<rparr>)"
  by (simp add: all_succeed_def init_state_def init_defs param_str_def atoi_defs)

subsection \<open>Failure of the engine registration (C7)\<close>

text \<open>
  Claim C7. If \<^verbatim>\<open>register_spi_bitbang_master\<close> fails (returns non-zero) after
  \<^verbatim>\<open>register_shutdown\<close> succeeded, initialization returns 1 at once: the calls it made
  end with the two registrations and contain no release, no close and no free, and the
  backend state is still allocated, holding the controller and the lines, for the
  registered shutdown hook to clean up.
\<close>

theorem init_engine_registration_failure_no_cleanup:
  assumes "param w ''cs'' = Some pcs" "param w ''sck'' = Some psck"
    "param w ''mosi'' = Some pmosi" "param w ''miso'' = Some pmiso"
    "param w ''gpiochip'' = Some pchip"
    and "calloc_ret w = Some a" "chip_open_ret w = Some c"
    and "get_lines_ret w = (0, b)"
    and "\<not> request_cs_ret w <s 0" "\<not> request_sck_ret w <s 0"
        "\<not> request_mosi_ret w <s 0" "\<not> request_miso_ret w <s 0"
    and "register_shutdown_ret w = 0" "register_master_ret w \<noteq> 0"
  shows "linux_gpiod_spi_init w st =
    Inr (1, st\<lparr>heap := (heap st)(a \<mapsto>
                 \<lparr>chip = Some c, bulk = b, cs_line = gpiod_line_bulk_get_line b 0,
                  sck_line = gpiod_line_bulk_get_line b 1,
                  mosi_line = gpiod_line_bulk_get_line b 2,
                  miso_line = gpiod_line_bulk_get_line b 3\<rparr>),
               calls := calls st @
                 [Chip_open_by_number (word_of_int (atoi pchip)),
                  Chip_get_lines c [word_of_int (atoi pcs), word_of_int (atoi psck),
                                    word_of_int (atoi pmosi), word_of_int (atoi pmiso)],
                  Line_request_output (gpiod_line_bulk_get_line b 0) ''flashrom'' 1,
                  Line_request_output (gpiod_line_bulk_get_line b 1) ''flashrom'' 1,
                  Line_request_output (gpiod_line_bulk_get_line b 2) ''flashrom'' 1,
                  Line_request_input (gpiod_line_bulk_get_line b 3) ''flashrom'',
                  Register_shutdown a,
                  Register_spi_bitbang_master a]\<rparr>)"
  using assms(6-)
  by (simp add: init_defs param_loop_present [OF assms(1-5)] or_negative_iff)

text \<open>The run leaves the same state as the successful one; only the return value
  differs.\<close>

theorem init_engine_registration_failure_no_cleanup_witness:
  "linux_gpiod_spi_init (all_succeed\<lparr>register_master_ret := 1\<rparr>) init_state =
     Inr (1, armed_state)"
  using init_engine_registration_failure_no_cleanup
    [of "all_succeed\<lparr>register_master_ret := 1\<rparr>" "''5''" "''6''" "''7''" "''8''" "''0''"
        0 0 "[5, 6, 7, 8]" init_state]
  by (simp add: all_succeed_def init_state_def armed_state_def armed_backend_def
      atoi_defs gpiod_line_bulk_get_line_def)

subsection \<open>Reading the data-in line (C8)\<close>

text \<open>
  Claim C8. \<^verbatim>\<open>linux_gpiod_bitbang_get_miso\<close> on a live backend returns exactly what
  \<^verbatim>\<open>gpiod_line_get_value\<close> returned for the data-in line: the sampled level when the
  read succeeded, and the library's negative value when it failed (then with the
  diagnostic \<^verbatim>\<open>Getting miso line failed\<close>). A negative value is neither 0 nor 1, so the
  caller can tell a failure from every logic level.
\<close>

theorem get_miso_value_or_sentinel:
  assumes "heap st p = Some d"
  shows "linux_gpiod_bitbang_get_miso r p st =
           Inr (r, if r <s 0
                   then st\<lparr>calls := calls st @ [Line_get_value (miso_line d)],
                           msgs := msgs st @ [''Getting miso line failed\<newline>'']\<rparr>
                   else st\<lparr>calls := calls st @ [Line_get_value (miso_line d)]\<rparr>)
         \<and> (r <s 0 \<longrightarrow> r \<noteq> 0 \<and> r \<noteq> 1)"
  using assms
  by (auto simp add: linux_gpiod_bitbang_get_miso_def Let_def do_call_def msg_perr_def
      word_sless_alt)

text \<open>A read of level 1 and a failed read (\<open>- 1\<close>) on the armed backend.\<close>

theorem get_miso_value_or_sentinel_witness:
  "linux_gpiod_bitbang_get_miso 1 0 armed_state =
     Inr (1, armed_state\<lparr>calls := calls armed_state @ [Line_get_value (Some 8)]\<rparr>)
   \<and> linux_gpiod_bitbang_get_miso (- 1) 0 armed_state =
     Inr (- 1, armed_state\<lparr>calls := calls armed_state @ [Line_get_value (Some 8)],
                          msgs := [''Getting miso line failed\<newline>'']\<rparr>)"
  using get_miso_value_or_sentinel [of armed_state 0 armed_backend 1]
    get_miso_value_or_sentinel [of armed_state 0 armed_backend "- 1"]
  by (simp add: armed_state_def armed_backend_def word_sless_alt)

subsection \<open>Allocation failure (C9)\<close>

text \<open>
  Claim C9. If all five parameters are present and \<^verbatim>\<open>calloc\<close> returns \<^verbatim>\<open>NULL\<close>,
  initialization returns 1 and changes nothing but the log (the diagnostic
  \<^verbatim>\<open>Unable to allocate space for SPI master data\<close>): the call trace is as before, so the
  controller is never opened and no lookup, request, release or close is made.
\<close>

theorem init_alloc_failure_no_gpio_calls:
  assumes "param w ''cs'' = Some pcs" "param w ''sck'' = Some psck"
    "param w ''mosi'' = Some pmosi" "param w ''miso'' = Some pmiso"
    "param w ''gpiochip'' = Some pchip"
    and "calloc_ret w = None"
  shows "linux_gpiod_spi_init w st =
    Inr (1, st\<lparr>msgs := msgs st @
               [''Unable to allocate space for SPI master data\<newline>'']\<rparr>)"
  using assms(6)
  by (simp add: init_defs param_loop_present [OF assms(1-5)])

theorem init_alloc_failure_no_gpio_calls_witness:
  "linux_gpiod_spi_init (all_succeed\<lparr>calloc_ret := None\<rparr>) init_state =
     Inr (1, \<lparr>heap = Map.empty, calls = [],
              msgs = [''Unable to allocate space for SPI master data\<newline>'']\<rparr>)"
  using init_alloc_failure_no_gpio_calls
    [of "all_succeed\<lparr>calloc_ret := None\<rparr>" "''5''" "''6''" "''7''" "''8''" "''0''" init_state]
  by (simp add: all_succeed_def init_state_def)

subsection \<open>The diagnostic of a failed data-out write (C10)\<close>

lemma sck_message_has_no_mosi: "\<not> sublist ''mosi'' ''Setting sck line failed\<newline>''"
  by code_simp

text \<open>
  Claim C10. When the write to the data-out line fails (\<^verbatim>\<open>gpiod_line_set_value\<close> returns
  a negative value), \<^verbatim>\<open>linux_gpiod_bitbang_set_mosi\<close> logs the string
  \<^verbatim>\<open>Setting sck line failed\<close> (with its newline): the very diagnostic
  \<^verbatim>\<open>linux_gpiod_bitbang_set_sck\<close> logs on its own failure. The text \<^verbatim>\<open>mosi\<close> does not
  occur in it. The write itself went to the data-out line.
\<close>

theorem set_mosi_failure_says_sck:
  assumes "heap st p = Some d" "ret <s 0"
  shows "linux_gpiod_bitbang_set_mosi ret val p st =
           Inr ((), st\<lparr>calls := calls st @ [Line_set_value (mosi_line d) val],
                        msgs := msgs st @ [''Setting sck line failed\<newline>'']\<rparr>)
       \<and> linux_gpiod_bitbang_set_sck ret val p st =
           Inr ((), st\<lparr>calls := calls st @ [Line_set_value (sck_line d) val],
                        msgs := msgs st @ [''Setting sck line failed\<newline>'']\<rparr>)
       \<and> \<not> sublist ''mosi'' ''Setting sck line failed\<newline>''"
  using assms sck_message_has_no_mosi
  by (simp add: linux_gpiod_bitbang_set_mosi_def linux_gpiod_bitbang_set_sck_def Let_def
      do_call_def msg_perr_def)

theorem set_mosi_failure_says_sck_witness:
  "linux_gpiod_bitbang_set_mosi (- 1) 1 0 armed_state =
     Inr ((), armed_state\<lparr>calls := calls armed_state @ [Line_set_value (Some 7) 1],
                          msgs := [''Setting sck line failed\<newline>'']\<rparr>)"
  using set_mosi_failure_says_sck [of armed_state 0 armed_backend "- 1" 1]
  by (simp add: armed_state_def armed_backend_def)

end
